theory Spec2Isabelle
  imports Complex_Main "HOL-Library.Log_Nat"
begin

section \<open>Docker operation metrics of the kubelet's dockershim\<close>

text \<open>
  The development follows \<^verbatim>\<open>pkg/kubelet/dockershim/metrics/metrics.go\<close>: the eight
  metric declarations, the registration entry point guarded by a \<^verbatim>\<open>sync.Once\<close>, and the
  two elapsed-time helpers.
\<close>

subsection \<open>Metric name constants\<close>

definition DockerOperationsKey :: string where
  "DockerOperationsKey = ''docker_operations_total''"

definition DockerOperationsLatencyKey :: string where
  "DockerOperationsLatencyKey = ''docker_operations_duration_seconds''"

definition DockerOperationsErrorsKey :: string where
  "DockerOperationsErrorsKey = ''docker_operations_errors_total''"

definition DockerOperationsTimeoutKey :: string where
  "DockerOperationsTimeoutKey = ''docker_operations_timeout_total''"

definition DeprecatedDockerOperationsKey :: string where
  "DeprecatedDockerOperationsKey = ''docker_operations''"

definition DeprecatedDockerOperationsLatencyKey :: string where
  "DeprecatedDockerOperationsLatencyKey = ''docker_operations_latency_microseconds''"

definition DeprecatedDockerOperationsErrorsKey :: string where
  "DeprecatedDockerOperationsErrorsKey = ''docker_operations_errors''"

definition DeprecatedDockerOperationsTimeoutKey :: string where
  "DeprecatedDockerOperationsTimeoutKey = ''docker_operations_timeout''"

definition kubeletSubsystem :: string where
  "kubeletSubsystem = ''kubelet''"

subsection \<open>Metric options and collectors\<close>

text \<open>
  The option structs \<^verbatim>\<open>CounterOpts\<close>, \<^verbatim>\<open>SummaryOpts\<close> and \<^verbatim>\<open>HistogramOpts\<close> of
  \<^verbatim>\<open>k8s.io/component-base/metrics\<close> are declared outside \<^verbatim>\<open>metrics.go\<close>; the records below
  hold the fields the declarations set. A string field that a declaration leaves out has
  Go's zero value, the empty string. \<^verbatim>\<open>HistogramOpts\<close> has the extra field \<^verbatim>\<open>Buckets\<close>, a
  slice of \<^verbatim>\<open>float64\<close> upper bounds. Of the library's stability levels the declarations use
  \<^verbatim>\<open>ALPHA\<close> only.
\<close>

datatype StabilityLevel = ALPHA | STABLE

record Opts =
  Subsystem :: string
  Name :: string
  Help :: string
  StabilityLevel :: StabilityLevel
  DeprecatedVersion :: string

record HistogramOpts = Opts +
  Buckets :: "rat list"

text \<open>
  A collector is what \<^verbatim>\<open>NewHistogramVec\<close>, \<^verbatim>\<open>NewCounterVec\<close> and \<^verbatim>\<open>NewSummaryVec\<close> build from
  the options and the list of label names.
\<close>

datatype Collector =
    HistogramVec HistogramOpts "string list"
  | CounterVec Opts "string list"
  | SummaryVec Opts "string list"

datatype Kind = Counter | Histogram | Summary

fun kind_of :: "Collector \<Rightarrow> Kind" where
  "kind_of (HistogramVec h ls) = Histogram"
| "kind_of (CounterVec c ls) = Counter"
| "kind_of (SummaryVec s ls) = Summary"

fun subsystem_of :: "Collector \<Rightarrow> string" where
  "subsystem_of (HistogramVec h ls) = Subsystem h"
| "subsystem_of (CounterVec c ls) = Subsystem c"
| "subsystem_of (SummaryVec s ls) = Subsystem s"

fun name_of :: "Collector \<Rightarrow> string" where
  "name_of (HistogramVec h ls) = Name h"
| "name_of (CounterVec c ls) = Name c"
| "name_of (SummaryVec s ls) = Name s"

fun help_of :: "Collector \<Rightarrow> string" where
  "help_of (HistogramVec h ls) = Help h"
| "help_of (CounterVec c ls) = Help c"
| "help_of (SummaryVec s ls) = Help s"

fun deprecated_version_of :: "Collector \<Rightarrow> string" where
  "deprecated_version_of (HistogramVec h ls) = DeprecatedVersion h"
| "deprecated_version_of (CounterVec c ls) = DeprecatedVersion c"
| "deprecated_version_of (SummaryVec s ls) = DeprecatedVersion s"

fun labels_of :: "Collector \<Rightarrow> string list" where
  "labels_of (HistogramVec h ls) = ls"
| "labels_of (CounterVec c ls) = ls"
| "labels_of (SummaryVec s ls) = ls"

fun buckets_of :: "Collector \<Rightarrow> rat list option" where
  "buckets_of (HistogramVec h ls) = Some (Buckets h)"
| "buckets_of (CounterVec c ls) = None"
| "buckets_of (SummaryVec s ls) = None"

text \<open>The identity of a series: its subsystem and its name.\<close>

definition identity :: "Collector \<Rightarrow> string \<times> string" where
  "identity c = (subsystem_of c, name_of c)"

subsection \<open>The eight declarations\<close>

text \<open>
  \<^verbatim>\<open>metrics.DefBuckets\<close> is a variable of the metrics library, declared outside
  \<^verbatim>\<open>metrics.go\<close>. The histogram declaration takes its value as the argument \<open>DefBuckets\<close>.
\<close>

definition DockerOperationsLatency :: "rat list \<Rightarrow> Collector" where
  "DockerOperationsLatency DefBuckets = HistogramVec
     \<lparr> Subsystem = kubeletSubsystem,
       Name = DockerOperationsLatencyKey,
       Help = ''Latency in seconds of Docker operations. Broken down by operation type.'',
       StabilityLevel = ALPHA,
       DeprecatedVersion = '''',
       Buckets = DefBuckets \<rparr>
     [''operation_type'']"

definition DockerOperations :: Collector where
  "DockerOperations = CounterVec
     \<lparr> Subsystem = kubeletSubsystem,
       Name = DockerOperationsKey,
       Help = ''Cumulative number of Docker operations by operation type.'',
       StabilityLevel = ALPHA,
       DeprecatedVersion = '''' \<rparr>
     [''operation_type'']"

definition DockerOperationsErrors :: Collector where
  "DockerOperationsErrors = CounterVec
     \<lparr> Subsystem = kubeletSubsystem,
       Name = DockerOperationsErrorsKey,
       Help = ''Cumulative number of Docker operation errors by operation type.'',
       StabilityLevel = ALPHA,
       DeprecatedVersion = '''' \<rparr>
     [''operation_type'']"

definition DockerOperationsTimeout :: Collector where
  "DockerOperationsTimeout = CounterVec
     \<lparr> Subsystem = kubeletSubsystem,
       Name = DockerOperationsTimeoutKey,
       Help = ''Cumulative number of Docker operation timeout by operation type.'',
       StabilityLevel = ALPHA,
       DeprecatedVersion = '''' \<rparr>
     [''operation_type'']"

definition DeprecatedDockerOperationsLatency :: Collector where
  "DeprecatedDockerOperationsLatency = SummaryVec
     \<lparr> Subsystem = kubeletSubsystem,
       Name = DeprecatedDockerOperationsLatencyKey,
       Help = ''Latency in microseconds of Docker operations. Broken down by operation type.'',
       StabilityLevel = ALPHA,
       DeprecatedVersion = ''1.14.0'' \<rparr>
     [''operation_type'']"

definition DeprecatedDockerOperations :: Collector where
  "DeprecatedDockerOperations = CounterVec
     \<lparr> Subsystem = kubeletSubsystem,
       Name = DeprecatedDockerOperationsKey,
       Help = ''Cumulative number of Docker operations by operation type.'',
       StabilityLevel = ALPHA,
       DeprecatedVersion = ''1.14.0'' \<rparr>
     [''operation_type'']"

definition DeprecatedDockerOperationsErrors :: Collector where
  "DeprecatedDockerOperationsErrors = CounterVec
     \<lparr> Subsystem = kubeletSubsystem,
       Name = DeprecatedDockerOperationsErrorsKey,
       Help = ''Cumulative number of Docker operation errors by operation type.'',
       StabilityLevel = ALPHA,
       DeprecatedVersion = ''1.14.0'' \<rparr>
     [''operation_type'']"

definition DeprecatedDockerOperationsTimeout :: Collector where
  "DeprecatedDockerOperationsTimeout = CounterVec
     \<lparr> Subsystem = kubeletSubsystem,
       Name = DeprecatedDockerOperationsTimeoutKey,
       Help = ''Cumulative number of Docker operation timeout by operation type.'',
       StabilityLevel = ALPHA,
       DeprecatedVersion = ''1.14.0'' \<rparr>
     [''operation_type'']"

text \<open>The four current and the four deprecated series, in the order of their registration.\<close>

definition current_series :: "rat list \<Rightarrow> Collector list" where
  "current_series DefBuckets =
     [DockerOperationsLatency DefBuckets, DockerOperations, DockerOperationsErrors,
      DockerOperationsTimeout]"

definition deprecated_series :: "Collector list" where
  "deprecated_series =
     [DeprecatedDockerOperationsLatency, DeprecatedDockerOperations,
      DeprecatedDockerOperationsErrors, DeprecatedDockerOperationsTimeout]"

definition all_series :: "rat list \<Rightarrow> Collector list" where
  "all_series DefBuckets = current_series DefBuckets @ deprecated_series"

subsection \<open>Registration\<close>

text \<open>
  A call that may panic returns the value of the panic, if any, beside the state it leaves;
  \<open>'e\<close> is the type of panic values. \<^verbatim>\<open>legacyregistry.MustRegister\<close> belongs to
  \<^verbatim>\<open>k8s.io/component-base\<close> and is not part of \<^verbatim>\<open>metrics.go\<close>, so registration takes it as the
  argument \<open>MustRegister\<close>: it receives a collector and the registry and either returns or
  panics. The type \<open>'r\<close> of the registry is left open.
\<close>

type_synonym ('e, 'r) step = "'r \<Rightarrow> 'e option \<times> 'r"

text \<open>Two statements in sequence: a panic in the first skips the second.\<close>

definition andThen :: "('e, 'r) step \<Rightarrow> ('e, 'r) step \<Rightarrow> ('e, 'r) step" where
  "andThen f g r = (case f r of (Some p, r') \<Rightarrow> (Some p, r') | (None, r') \<Rightarrow> g r')"

text \<open>The function literal passed to \<^verbatim>\<open>registerMetrics.Do\<close>: eight calls, one after the other.\<close>

definition registerBody :: "(Collector \<Rightarrow> ('e, 'r) step) \<Rightarrow> rat list \<Rightarrow> ('e, 'r) step" where
  "registerBody MustRegister DefBuckets =
     andThen (MustRegister (DockerOperationsLatency DefBuckets))
    (andThen (MustRegister DockerOperations)
    (andThen (MustRegister DockerOperationsErrors)
    (andThen (MustRegister DockerOperationsTimeout)
    (andThen (MustRegister DeprecatedDockerOperationsLatency)
    (andThen (MustRegister DeprecatedDockerOperations)
    (andThen (MustRegister DeprecatedDockerOperationsErrors)
             (MustRegister DeprecatedDockerOperationsTimeout)))))))"

text \<open>
  The process state the package touches: the \<^verbatim>\<open>sync.Once\<close> variable \<^verbatim>\<open>registerMetrics\<close> (its
  flag says whether \<^verbatim>\<open>Do\<close> has run) and the shared registry.
\<close>

record 'r process =
  registerMetrics :: bool
  legacyregistry :: 'r

text \<open>
  \<^verbatim>\<open>sync.Once.Do\<close>: the function runs only if no call of \<^verbatim>\<open>Do\<close> on this variable has run
  before. The flag is set in a deferred statement, so it is set also when the function
  panics; the panic then continues in the caller.
\<close>

definition once_Do :: "('e, 'r) step \<Rightarrow> 'r process \<Rightarrow> 'e option \<times> 'r process" where
  "once_Do f s =
     (if registerMetrics s then (None, s)
      else (case f (legacyregistry s) of
              (p, r') \<Rightarrow> (p, \<lparr> registerMetrics = True, legacyregistry = r' \<rparr>)))"

definition Register ::
  "(Collector \<Rightarrow> ('e, 'r) step) \<Rightarrow> rat list \<Rightarrow> 'r process \<Rightarrow> 'e option \<times> 'r process"
  where
  "Register MustRegister DefBuckets s = once_Do (registerBody MustRegister DefBuckets) s"

text \<open>\<open>n\<close> calls of \<^verbatim>\<open>Register()\<close> in a row; a panic ends the sequence.\<close>

fun Register_times ::
  "(Collector \<Rightarrow> ('e, 'r) step) \<Rightarrow> rat list \<Rightarrow> nat \<Rightarrow> 'r process
     \<Rightarrow> 'e option \<times> 'r process"
  where
  "Register_times MustRegister DefBuckets 0 s = (None, s)"
| "Register_times MustRegister DefBuckets (Suc n) s =
     (case Register MustRegister DefBuckets s of
        (Some p, s') \<Rightarrow> (Some p, s')
      | (None, s') \<Rightarrow> Register_times MustRegister DefBuckets n s')"

text \<open>
  For the statements below: registering a list of collectors one by one, stopping at the
  first panic, and the registry after each of them was passed to \<open>MustRegister\<close> once.
\<close>

fun register_each :: "(Collector \<Rightarrow> ('e, 'r) step) \<Rightarrow> Collector list \<Rightarrow> ('e, 'r) step" where
  "register_each MustRegister [] r = (None, r)"
| "register_each MustRegister (c # cs) r =
     (case MustRegister c r of
        (Some p, r') \<Rightarrow> (Some p, r')
      | (None, r') \<Rightarrow> register_each MustRegister cs r')"

definition installed_once ::
  "(Collector \<Rightarrow> ('e, 'r) step) \<Rightarrow> Collector list \<Rightarrow> 'r \<Rightarrow> 'r" where
  "installed_once MustRegister cs r = foldl (\<lambda>r' c. snd (MustRegister c r')) r cs"

text \<open>
  Modelled from the spec: the registry of \<^verbatim>\<open>k8s.io/component-base/metrics/legacyregistry\<close>,
  which is not among the sources. The spec describes it as a process-wide sink with the
  operation "install series, rejecting duplicate identities", a rejection being fatal. The
  registry is the list of installed series; installing a series whose identity is already
  present panics with that identity and leaves the registry as it was.
\<close>

type_synonym Registry = "Collector list"

datatype registry_panic = DuplicateIdentity "string \<times> string"

definition legacy_MustRegister :: "Collector \<Rightarrow> (registry_panic, Registry) step" where
  "legacy_MustRegister c r =
     (if identity c \<in> set (map identity r)
      then (Some (DuplicateIdentity (identity c)), r)
      else (None, r @ [c]))"

text \<open>The bucket bounds used where a concrete value of \<^verbatim>\<open>metrics.DefBuckets\<close> is needed.\<close>

definition sample_buckets :: "rat list" where
  "sample_buckets = [1/200, 1/100, 1/40, 1/20, 1/10, 1/4, 1/2, 1, 5/2, 5, 10]"

subsection \<open>Time, durations and \<^verbatim>\<open>float64\<close>\<close>

text \<open>
  The helpers call Go's \<^verbatim>\<open>time\<close> package and convert to \<^verbatim>\<open>float64\<close>; both belong to the
  language, not to this repository, and are written out here as Go documents them.

  A \<^verbatim>\<open>time.Time\<close> is an instant, counted in nanoseconds on one unbounded time line. A
  \<^verbatim>\<open>time.Duration\<close> is an \<^verbatim>\<open>int64\<close> count of nanoseconds, so it lies between
  \<open>minDuration\<close> and \<open>maxDuration\<close> (about 292 years either way).
\<close>

type_synonym Time = int

type_synonym Duration = int

definition minDuration :: Duration where
  "minDuration = - (2 ^ 63)"

definition maxDuration :: Duration where
  "maxDuration = 2 ^ 63 - 1"

definition Nanosecond :: Duration where
  "Nanosecond = 1"

definition Microsecond :: Duration where
  "Microsecond = 1000 * Nanosecond"

definition Millisecond :: Duration where
  "Millisecond = 1000 * Microsecond"

definition Second :: Duration where
  "Second = 1000 * Millisecond"

text \<open>
  \<^verbatim>\<open>t.Sub(u)\<close> is the duration \<open>t - u\<close>; a difference that does not fit a \<^verbatim>\<open>Duration\<close> is
  replaced by the largest or the smallest one. \<^verbatim>\<open>time.Since(t)\<close> is \<^verbatim>\<open>time.Now().Sub(t)\<close>: the
  clock is read when \<^verbatim>\<open>Since\<close> is called, and that reading is the argument \<open>now\<close>.
\<close>

definition Sub :: "Time \<Rightarrow> Time \<Rightarrow> Duration" where
  "Sub t u =
     (if maxDuration < t - u then maxDuration
      else if t - u < minDuration then minDuration
      else t - u)"

definition Since :: "Time \<Rightarrow> Time \<Rightarrow> Duration" where
  "Since now t = Sub now t"

definition Nanoseconds :: "Duration \<Rightarrow> int" where
  "Nanoseconds d = d"

text \<open>
  Go's integer quotient \<^verbatim>\<open>a / b\<close> truncates toward zero and \<^verbatim>\<open>a % b\<close> is the remainder
  that goes with it, so \<open>a = b * (a / b) + a % b\<close>. The divisors below are the non-zero
  constants \<^verbatim>\<open>Microsecond\<close> and \<^verbatim>\<open>Second\<close>, so neither the division by zero nor the one
  overflowing quotient (\<open>minDuration / -1\<close>) occurs.
\<close>

definition int_quo :: "int \<Rightarrow> int \<Rightarrow> int" where
  "int_quo a b = sgn a * sgn b * (\<bar>a\<bar> div \<bar>b\<bar>)"

definition int_rem :: "int \<Rightarrow> int \<Rightarrow> int" where
  "int_rem a b = a - b * int_quo a b"

text \<open>
  A finite \<^verbatim>\<open>float64\<close> is the rational number it denotes. The result of a conversion or
  of an arithmetic operation is the exact result rounded to the nearest number with a 53-bit
  significand, a tie going to the even significand. \<open>binade x\<close> is the exponent \<open>k\<close>
  with \<open>2 powi k \<le> x < 2 powi (k + 1)\<close>, for positive \<open>x\<close>. The exponent range of
  \<^verbatim>\<open>float64\<close> is not modelled: every value the helpers compute is zero or has a magnitude
  between \<^verbatim>\<open>1e-9\<close> and \<^verbatim>\<open>1e19\<close>, far inside it.
\<close>

definition round_half_even :: "rat \<Rightarrow> int" where
  "round_half_even m =
     (let f = \<lfloor>m\<rfloor>; d = m - of_int f
      in if d < 1/2 then f else if 1/2 < d then f + 1 else if even f then f else f + 1)"

definition binade :: "rat \<Rightarrow> int" where
  "binade x = (if 1 \<le> x then bitlen \<lfloor>x\<rfloor> - 1 else - bitlen (\<lceil>1 / x\<rceil> - 1))"

definition float64_round :: "rat \<Rightarrow> rat" where
  "float64_round x =
     (if x = 0 then 0
      else let e = binade \<bar>x\<bar> - 52
           in sgn x * of_int (round_half_even (\<bar>x\<bar> / 2 powi e)) * 2 powi e)"

definition float64_of_int64 :: "int \<Rightarrow> rat" where
  "float64_of_int64 i = float64_round (of_int i)"

definition float64_add :: "rat \<Rightarrow> rat \<Rightarrow> rat" where
  "float64_add x y = float64_round (x + y)"

definition float64_quo :: "rat \<Rightarrow> rat \<Rightarrow> rat" where
  "float64_quo x y = float64_round (x / y)"

text \<open>
  \<^verbatim>\<open>Duration.Seconds\<close> of the \<^verbatim>\<open>time\<close> package:
  \<^verbatim>\<open>sec := d / Second; nsec := d % Second; return float64(sec) + float64(nsec)/1e9\<close>.
\<close>

definition Seconds :: "Duration \<Rightarrow> rat" where
  "Seconds d =
     (let sec = int_quo d Second; nsec = int_rem d Second
      in float64_add (float64_of_int64 sec) (float64_quo (float64_of_int64 nsec) 1000000000))"

subsection \<open>The elapsed-time helpers\<close>

text \<open>
  \<^verbatim>\<open>return float64(time.Since(start).Nanoseconds() / time.Microsecond.Nanoseconds())\<close>
\<close>

definition SinceInMicroseconds :: "Time \<Rightarrow> Time \<Rightarrow> rat" where
  "SinceInMicroseconds now start =
     float64_of_int64 (int_quo (Nanoseconds (Since now start)) (Nanoseconds Microsecond))"

text \<open>
  \<^verbatim>\<open>return time.Since(start).Seconds()\<close>
\<close>

definition SinceInSeconds :: "Time \<Rightarrow> Time \<Rightarrow> rat" where
  "SinceInSeconds now start = Seconds (Since now start)"

section \<open>Properties of the declarations\<close>

lemmas key_defs =
  DockerOperationsKey_def DockerOperationsLatencyKey_def DockerOperationsErrorsKey_def
  DockerOperationsTimeoutKey_def DeprecatedDockerOperationsKey_def
  DeprecatedDockerOperationsLatencyKey_def DeprecatedDockerOperationsErrorsKey_def
  DeprecatedDockerOperationsTimeoutKey_def kubeletSubsystem_def

lemmas series_defs =
  DockerOperationsLatency_def DockerOperations_def DockerOperationsErrors_def
  DockerOperationsTimeout_def DeprecatedDockerOperationsLatency_def
  DeprecatedDockerOperations_def DeprecatedDockerOperationsErrors_def
  DeprecatedDockerOperationsTimeout_def

lemma all_series_unfold:
  "all_series db =
     [DockerOperationsLatency db, DockerOperations, DockerOperationsErrors,
      DockerOperationsTimeout, DeprecatedDockerOperationsLatency, DeprecatedDockerOperations,
      DeprecatedDockerOperationsErrors, DeprecatedDockerOperationsTimeout]"
  by (simp add: all_series_def current_series_def deprecated_series_def)

lemma names_all_series:
  "map name_of (all_series db) =
     [''docker_operations_duration_seconds'', ''docker_operations_total'',
      ''docker_operations_errors_total'', ''docker_operations_timeout_total'',
      ''docker_operations_latency_microseconds'', ''docker_operations'',
      ''docker_operations_errors'', ''docker_operations_timeout'']"
  by (simp add: all_series_unfold series_defs key_defs)

lemma identities_distinct: "distinct (map identity (all_series db))"
proof -
  have "distinct (map name_of (all_series db))"
    unfolding names_all_series by simp
  moreover have "map name_of (all_series db) = map snd (map identity (all_series db))"
    by (simp add: identity_def)
  ultimately show ?thesis by (metis distinct_map)
qed

text \<open>
  Claim C6. The eight metric name constants are pairwise distinct strings, and the eight
  declared series have pairwise distinct (subsystem, name) identities, so no two of them
  collide within the subsystem they share.
\<close>

theorem series_identities_distinct:
  "distinct [DockerOperationsKey, DockerOperationsLatencyKey, DockerOperationsErrorsKey,
             DockerOperationsTimeoutKey, DeprecatedDockerOperationsKey,
             DeprecatedDockerOperationsLatencyKey, DeprecatedDockerOperationsErrorsKey,
             DeprecatedDockerOperationsTimeoutKey]
   \<and> distinct (map identity (all_series DefBuckets))
   \<and> length (all_series DefBuckets) = 8"
  by (simp add: identities_distinct) (simp add: key_defs all_series_unfold)

text \<open>
  Claim C7. The current latency series is a histogram: its name and help text give the
  unit as seconds, and its bucket bounds are the library's predefined \<^verbatim>\<open>DefBuckets\<close>,
  whatever their value. Its deprecated counterpart is a summary whose name and help text
  give the unit as microseconds. No deprecated series has the name of a current one; each
  of the four deprecated series has a deprecation version, and none of the four current
  series has one.
\<close>

theorem latency_series_kinds:
  "kind_of (DockerOperationsLatency DefBuckets) = Histogram
   \<and> buckets_of (DockerOperationsLatency DefBuckets) = Some DefBuckets
   \<and> name_of (DockerOperationsLatency DefBuckets) = ''docker_operations_duration_seconds''
   \<and> help_of (DockerOperationsLatency DefBuckets) =
        ''Latency in seconds of Docker operations. Broken down by operation type.''
   \<and> kind_of DeprecatedDockerOperationsLatency = Summary
   \<and> buckets_of DeprecatedDockerOperationsLatency = None
   \<and> name_of DeprecatedDockerOperationsLatency = ''docker_operations_latency_microseconds''
   \<and> help_of DeprecatedDockerOperationsLatency =
        ''Latency in microseconds of Docker operations. Broken down by operation type.''
   \<and> set (map name_of deprecated_series) \<inter> set (map name_of (current_series DefBuckets)) = {}
   \<and> map (\<lambda>c. deprecated_version_of c = []) deprecated_series = [False, False, False, False]
   \<and> map (\<lambda>c. deprecated_version_of c = []) (current_series DefBuckets) =
        [True, True, True, True]"
  by (simp add: series_defs key_defs current_series_def deprecated_series_def)

text \<open>
  Claim C9. All eight series are declared under the subsystem \<^verbatim>\<open>kubelet\<close> with the single
  label \<^verbatim>\<open>operation_type\<close>, and the four deprecated series carry the deprecation version
  \<^verbatim>\<open>1.14.0\<close>.
\<close>

theorem series_share_subsystem_and_label:
  "map subsystem_of (all_series DefBuckets) = replicate 8 ''kubelet''
   \<and> map labels_of (all_series DefBuckets) = replicate 8 [''operation_type'']
   \<and> map deprecated_version_of deprecated_series = replicate 4 ''1.14.0''
   \<and> length (all_series DefBuckets) = 8"
  by (simp add: all_series_unfold deprecated_series_def series_defs key_defs numeral_eq_Suc)

section \<open>Registration\<close>

text \<open>The body of \<^verbatim>\<open>Register\<close> passes the eight series to \<open>MustRegister\<close> in their order.\<close>

lemma registerBody_register_each:
  "registerBody MustRegister db = register_each MustRegister (all_series db)"
proof -
  have step: "register_each MustRegister (c # cs) = andThen (MustRegister c) (register_each MustRegister cs)"
    for c cs
    by (rule ext) (simp add: andThen_def)
  have last: "andThen (MustRegister c) (register_each MustRegister []) = MustRegister c" for c
    by (rule ext) (auto simp: andThen_def split: prod.splits option.splits)
  show ?thesis
    unfolding all_series_unfold registerBody_def by (simp only: step last)
qed

lemma register_each_append:
  "register_each MustRegister (pre @ cs) r =
     (case register_each MustRegister pre r of
        (Some p, r') \<Rightarrow> (Some p, r')
      | (None, r') \<Rightarrow> register_each MustRegister cs r')"
  by (induction pre arbitrary: r) (auto split: prod.splits option.splits)

lemma register_each_installed_once:
  "register_each MustRegister cs r = (None, r') \<Longrightarrow> r' = installed_once MustRegister cs r"
proof (induction cs arbitrary: r)
  case Nil
  then show ?case by (simp add: installed_once_def)
next
  case (Cons c cs)
  from Cons.prems obtain r1 where 1: "MustRegister c r = (None, r1)"
    and 2: "register_each MustRegister cs r1 = (None, r')"
    by (auto split: prod.splits option.splits)
  from Cons.IH [OF 2] 1 show ?case by (simp add: installed_once_def)
qed

text \<open>The gate: a closed gate makes \<^verbatim>\<open>Register\<close> return at once; an open one runs the body.\<close>

lemma Register_closed: "registerMetrics s \<Longrightarrow> Register MustRegister db s = (None, s)"
  by (simp add: Register_def once_Do_def)

lemma Register_open:
  "\<not> registerMetrics s \<Longrightarrow>
   Register MustRegister db s =
     (fst (register_each MustRegister (all_series db) (legacyregistry s)),
      \<lparr> registerMetrics = True,
        legacyregistry = snd (register_each MustRegister (all_series db) (legacyregistry s)) \<rparr>)"
  by (simp add: Register_def once_Do_def registerBody_register_each split: prod.splits)

lemma Register_sets_flag: "registerMetrics (snd (Register MustRegister db s))"
  by (cases "registerMetrics s") (simp_all add: Register_closed Register_open)

lemma Register_times_closed:
  "registerMetrics s \<Longrightarrow> Register_times MustRegister db n s = (None, s)"
  by (induction n) (simp_all add: Register_closed)

lemma Register_times_first:
  assumes "1 \<le> N"
  shows "Register_times MustRegister db N s = Register MustRegister db s"
proof -
  obtain n where N: "N = Suc n" using assms by (cases N) simp_all
  obtain p s' where R: "Register MustRegister db s = (p, s')"
    by (cases "Register MustRegister db s")
  have flag: "registerMetrics s'" using Register_sets_flag [of MustRegister db s] R by simp
  show ?thesis
  proof (cases p)
    case None
    then show ?thesis using R flag by (simp add: N Register_times_closed)
  next
    case (Some e)
    then show ?thesis using R by (simp add: N)
  qed
qed

text \<open>
  With the registry as the spec describes it: from a registry that holds none of the eight
  identities, \<^verbatim>\<open>Register\<close> returns normally and appends the eight series, each once.
\<close>

lemma legacy_register_each_fresh:
  "distinct (map identity cs) \<Longrightarrow> set (map identity cs) \<inter> set (map identity r) = {} \<Longrightarrow>
   register_each legacy_MustRegister cs r = (None, r @ cs)"
proof (induction cs arbitrary: r)
  case Nil
  then show ?case by simp
next
  case (Cons c cs)
  have 1: "legacy_MustRegister c r = (None, r @ [c])"
    using Cons.prems(2) by (auto simp: legacy_MustRegister_def)
  have "register_each legacy_MustRegister cs (r @ [c]) = (None, (r @ [c]) @ cs)"
    using Cons.prems by (intro Cons.IH) auto
  with 1 show ?case by simp
qed

lemma legacy_Register_fresh:
  assumes "\<not> registerMetrics s"
    and "set (map identity (all_series db)) \<inter> set (map identity (legacyregistry s)) = {}"
  shows "Register legacy_MustRegister db s =
           (None, \<lparr> registerMetrics = True, legacyregistry = legacyregistry s @ all_series db \<rparr>)"
  using assms by (simp add: Register_open legacy_register_each_fresh identities_distinct)

text \<open>
  Claim C1. \<open>N \<ge> 1\<close> calls of \<^verbatim>\<open>Register()\<close> in a row do what the first call does. The first
  call leaves the gate closed. A call that finds the gate closed returns normally and
  leaves the state as it was. A first call that returns normally has passed each of the
  eight series to \<open>MustRegister\<close> exactly once, in the order of the declarations, so the
  registry after any number of calls is the registry after that single pass. With a registry
  that rejects duplicate identities and holds none of the eight, the \<open>N\<close> calls return
  normally and leave the registry extended by the eight series, each once. (A registry that
  rejects a series is the subject of claim C5.)
\<close>

theorem Register_idempotent:
  assumes "1 \<le> N"
  shows "Register_times MustRegister DefBuckets N s = Register MustRegister DefBuckets s
       \<and> registerMetrics (snd (Register MustRegister DefBuckets s))
       \<and> (registerMetrics s \<longrightarrow> Register MustRegister DefBuckets s = (None, s))
       \<and> (\<not> registerMetrics s \<and> fst (Register MustRegister DefBuckets s) = None \<longrightarrow>
            snd (Register MustRegister DefBuckets s) =
              \<lparr> registerMetrics = True,
                legacyregistry =
                  installed_once MustRegister (all_series DefBuckets) (legacyregistry s) \<rparr>)
       \<and> (\<not> registerMetrics t
            \<and> set (map identity (all_series DefBuckets)) \<inter> set (map identity (legacyregistry t)) = {}
          \<longrightarrow> Register_times legacy_MustRegister DefBuckets N t =
                (None, \<lparr> registerMetrics = True,
                         legacyregistry = legacyregistry t @ all_series DefBuckets \<rparr>))"
proof -
  have 1: "Register_times MustRegister DefBuckets N s = Register MustRegister DefBuckets s"
    using assms by (rule Register_times_first)
  have 4: "snd (Register MustRegister DefBuckets s) =
              \<lparr> registerMetrics = True,
                legacyregistry =
                  installed_once MustRegister (all_series DefBuckets) (legacyregistry s) \<rparr>"
    if "\<not> registerMetrics s" "fst (Register MustRegister DefBuckets s) = None"
  proof -
    from that have "fst (register_each MustRegister (all_series DefBuckets) (legacyregistry s)) = None"
      by (simp add: Register_open)
    then have "register_each MustRegister (all_series DefBuckets) (legacyregistry s) =
        (None, snd (register_each MustRegister (all_series DefBuckets) (legacyregistry s)))"
      by (metis prod.collapse)
    from register_each_installed_once [OF this] that(1) show ?thesis
      by (simp add: Register_open)
  qed
  have 5: "Register_times legacy_MustRegister DefBuckets N t =
      (None, \<lparr> registerMetrics = True,
               legacyregistry = legacyregistry t @ all_series DefBuckets \<rparr>)"
    if "\<not> registerMetrics t"
      "set (map identity (all_series DefBuckets)) \<inter> set (map identity (legacyregistry t)) = {}"
    using that by (simp add: Register_times_first [OF assms] legacy_Register_fresh)
  from 1 4 5 show ?thesis
    by (simp add: Register_sets_flag Register_closed)
qed

text \<open>
  Three calls on an empty registry install the eight series, each once, and a further call
  changes nothing.
\<close>

theorem Register_idempotent_witness:
  "(1::nat) \<le> 3
   \<and> Register_times legacy_MustRegister sample_buckets 3
        \<lparr> registerMetrics = False, legacyregistry = [] \<rparr>
      = (None, \<lparr> registerMetrics = True, legacyregistry = all_series sample_buckets \<rparr>)
   \<and> Register legacy_MustRegister sample_buckets
        \<lparr> registerMetrics = False, legacyregistry = [] \<rparr>
      = (None, \<lparr> registerMetrics = True, legacyregistry = all_series sample_buckets \<rparr>)
   \<and> installed_once legacy_MustRegister (all_series sample_buckets) [] = all_series sample_buckets
   \<and> Register legacy_MustRegister sample_buckets
        \<lparr> registerMetrics = True, legacyregistry = all_series sample_buckets \<rparr>
      = (None, \<lparr> registerMetrics = True, legacyregistry = all_series sample_buckets \<rparr>)"
proof -
  let ?s = "\<lparr> registerMetrics = False, legacyregistry = ([] :: Registry) \<rparr>"
  let ?s' = "\<lparr> registerMetrics = True, legacyregistry = all_series sample_buckets \<rparr>"
  have three: "(1::nat) \<le> 3" by simp
  note first = Register_idempotent [OF three, of legacy_MustRegister sample_buckets ?s ?s]
  have a: "Register_times legacy_MustRegister sample_buckets 3 ?s = (None, ?s')"
    using first [THEN conjunct2, THEN conjunct2, THEN conjunct2, THEN conjunct2] by simp
  have b: "Register_times legacy_MustRegister sample_buckets 3 ?s =
         Register legacy_MustRegister sample_buckets ?s"
    by (rule first [THEN conjunct1])
  have c: "fst (Register legacy_MustRegister sample_buckets ?s) = None \<longrightarrow>
         snd (Register legacy_MustRegister sample_buckets ?s) =
           \<lparr> registerMetrics = True,
             legacyregistry = installed_once legacy_MustRegister (all_series sample_buckets) [] \<rparr>"
    using first [THEN conjunct2, THEN conjunct2, THEN conjunct2, THEN conjunct1] by simp
  from a b have R: "Register legacy_MustRegister sample_buckets ?s = (None, ?s')" by simp
  with c have i: "installed_once legacy_MustRegister (all_series sample_buckets) [] =
      all_series sample_buckets" by simp
  have d: "Register legacy_MustRegister sample_buckets ?s' = (None, ?s')"
    using Register_idempotent [OF three, of legacy_MustRegister sample_buckets ?s' ?s,
        THEN conjunct2, THEN conjunct2, THEN conjunct1]
    by simp
  from a R i d show ?thesis by simp
qed

text \<open>
  Claim C5. If the registry rejects a series, that is, if the \<open>MustRegister\<close> call for
  one of the eight series panics after the calls before it have returned, then
  \<^verbatim>\<open>Register()\<close> ends with that same panic: it is not caught, and there is no other way for
  \<^verbatim>\<open>Register()\<close> to report a failure, since its outcome is either a normal return or a panic.
  The panic is raised at the rejected series: the registry is left as the rejecting call
  left it, and the series after it are not registered. Nothing is retried: the gate is
  closed, and a later call of \<^verbatim>\<open>Register()\<close> returns without registering anything.
\<close>

theorem Register_rejection_fatal:
  assumes "\<not> registerMetrics s"
    and "all_series DefBuckets = pre @ c # post"
    and "register_each MustRegister pre (legacyregistry s) = (None, r1)"
    and "MustRegister c r1 = (Some p, r2)"
  shows "Register MustRegister DefBuckets s =
           (Some p, \<lparr> registerMetrics = True, legacyregistry = r2 \<rparr>)
       \<and> Register MustRegister DefBuckets \<lparr> registerMetrics = True, legacyregistry = r2 \<rparr> =
           (None, \<lparr> registerMetrics = True, legacyregistry = r2 \<rparr>)"
proof -
  have "register_each MustRegister (all_series DefBuckets) (legacyregistry s) = (Some p, r2)"
    unfolding assms(2) register_each_append using assms(3,4) by simp
  then show ?thesis using assms(1) by (simp add: Register_open Register_closed)
qed

text \<open>
  A registry that already holds a series with the identity of \<^verbatim>\<open>DockerOperations\<close>: the
  latency histogram is registered, the second call panics, and nothing follows.
\<close>

theorem Register_rejection_fatal_witness:
  "Register legacy_MustRegister sample_buckets
      \<lparr> registerMetrics = False, legacyregistry = [DockerOperations] \<rparr> =
     (Some (DuplicateIdentity (''kubelet'', ''docker_operations_total'')),
      \<lparr> registerMetrics = True,
        legacyregistry = [DockerOperations, DockerOperationsLatency sample_buckets] \<rparr>)
   \<and> Register legacy_MustRegister sample_buckets
      \<lparr> registerMetrics = True,
        legacyregistry = [DockerOperations, DockerOperationsLatency sample_buckets] \<rparr> =
     (None, \<lparr> registerMetrics = True,
        legacyregistry = [DockerOperations, DockerOperationsLatency sample_buckets] \<rparr>)"
proof -
  let ?s = "\<lparr> registerMetrics = False, legacyregistry = [DockerOperations] \<rparr>"
  let ?pre = "[DockerOperationsLatency sample_buckets]"
  let ?post = "[DockerOperationsErrors, DockerOperationsTimeout, DeprecatedDockerOperationsLatency,
      DeprecatedDockerOperations, DeprecatedDockerOperationsErrors,
      DeprecatedDockerOperationsTimeout]"
  let ?r = "[DockerOperations, DockerOperationsLatency sample_buckets]"
  have 1: "\<not> registerMetrics ?s" by simp
  have 2: "all_series sample_buckets = ?pre @ DockerOperations # ?post"
    by (simp add: all_series_unfold)
  have 3: "register_each legacy_MustRegister ?pre (legacyregistry ?s) = (None, ?r)"
    by (simp add: legacy_MustRegister_def identity_def series_defs key_defs)
  have 4: "legacy_MustRegister DockerOperations ?r =
      (Some (DuplicateIdentity (''kubelet'', ''docker_operations_total'')), ?r)"
    by (simp add: legacy_MustRegister_def identity_def series_defs key_defs)
  from Register_rejection_fatal [OF 1 2 3 4] show ?thesis .
qed

section \<open>Rounding to \<^verbatim>\<open>float64\<close>\<close>

lemma round_half_even_of_int [simp]: "round_half_even (of_int k) = k"
  by (simp add: round_half_even_def)

lemma round_half_even_error: "\<bar>of_int (round_half_even m) - m\<bar> \<le> 1/2"
proof -
  have "of_int \<lfloor>m\<rfloor> \<le> m" "m < of_int \<lfloor>m\<rfloor> + 1" by linarith+
  then show ?thesis
    by (auto simp: round_half_even_def Let_def)
qed

lemma round_half_even_ge: "of_int k \<le> m \<Longrightarrow> k \<le> round_half_even m"
proof -
  assume "of_int k \<le> m"
  then have "k \<le> \<lfloor>m\<rfloor>" by (simp add: le_floor_iff)
  then show ?thesis by (auto simp: round_half_even_def Let_def)
qed

lemma binade_bounds:
  assumes "0 < x"
  shows "2 powi binade x \<le> x" and "x < 2 powi (binade x + 1)"
proof -
  have "2 powi binade x \<le> x \<and> x < 2 powi (binade x + 1)"
  proof (cases "1 \<le> x")
    case True
    define n where "n = \<lfloor>x\<rfloor>"
    have n: "0 < n" using True by (simp add: n_def)
    from bitlen_bounds [OF n] have lo: "2 ^ nat (bitlen n - 1) \<le> n" and hi: "n < 2 ^ nat (bitlen n)"
      by auto
    have b1: "1 \<le> bitlen n" using n bitlen_eq_zero_iff [of n] bitlen_nonneg [of n] by linarith
    have "(of_int (2 ^ nat (bitlen n - 1)) :: rat) \<le> of_int n" using lo by (simp only: of_int_le_iff)
    also have "\<dots> \<le> x" by (simp add: n_def)
    finally have 1: "2 powi (bitlen n - 1) \<le> x" using b1 by (simp add: power_int_nonneg_exp)
    have "n + 1 \<le> 2 ^ nat (bitlen n)" using hi by simp
    then have "(of_int (n + 1) :: rat) \<le> of_int (2 ^ nat (bitlen n))" by (simp only: of_int_le_iff)
    moreover have "x < of_int (n + 1)" unfolding n_def by linarith
    ultimately have 2: "x < 2 powi (bitlen n)" using b1 by (simp add: power_int_nonneg_exp)
    from 1 2 True show ?thesis by (simp add: binade_def n_def)
  next
    case False
    define c where "c = \<lceil>1 / x\<rceil>"
    define b where "b = bitlen (c - 1)"
    have y: "1 < 1 / x" using False assms by simp
    then have c: "0 < c - 1" unfolding c_def by (simp add: less_ceiling_iff)
    from bitlen_bounds [OF c] have lo: "2 ^ nat (b - 1) \<le> c - 1" and hi: "c - 1 < 2 ^ nat b"
      by (auto simp: b_def)
    have b1: "1 \<le> b" using c bitlen_eq_zero_iff [of "c - 1"] bitlen_nonneg [of "c - 1"]
      unfolding b_def by linarith
    have "c \<le> 2 ^ nat b" using hi by simp
    then have "1 / x \<le> of_int (2 ^ nat b)" unfolding c_def by (simp only: ceiling_le_iff)
    then have "1 / x \<le> 2 ^ nat b" by simp
    then have "1 \<le> 2 ^ nat b * x" using assms by (simp add: pos_divide_le_eq)
    then have "1 / 2 ^ nat b \<le> x" by (simp add: pos_divide_le_eq mult.commute)
    then have 1: "2 powi (- b) \<le> x" using b1 by (simp add: power_int_minus_divide power_int_nonneg_exp)
    have "2 ^ nat (b - 1) < c" using lo by simp
    then have "of_int (2 ^ nat (b - 1)) < 1 / x" unfolding c_def by (simp only: less_ceiling_iff)
    then have "2 ^ nat (b - 1) < 1 / x" by simp
    then have "2 ^ nat (b - 1) * x < 1" using assms by (simp add: pos_less_divide_eq)
    then have "x < 1 / 2 ^ nat (b - 1)" by (simp add: pos_less_divide_eq mult.commute)
    moreover have "(2::rat) powi (- b + 1) = 1 / 2 ^ nat (b - 1)"
    proof -
      have "(2::rat) powi (- b + 1) = 2 powi (- (b - 1))" by simp
      also have "\<dots> = 1 / 2 powi (b - 1)" by (rule power_int_minus_divide)
      also have "\<dots> = 1 / 2 ^ nat (b - 1)" using b1 by (simp add: power_int_nonneg_exp)
      finally show ?thesis .
    qed
    ultimately have 2: "x < 2 powi (- b + 1)" by simp
    from 1 2 False show ?thesis by (simp add: binade_def b_def c_def)
  qed
  then show "2 powi binade x \<le> x" and "x < 2 powi (binade x + 1)" by simp_all
qed

lemma binade_eqI:
  assumes "2 powi k \<le> x" and "x < 2 powi (k + 1)"
  shows "binade x = k"
proof -
  have x: "0 < x" using assms(1) zero_less_power_int [of "2::rat" k] by linarith
  have "(2::rat) powi binade x < 2 powi (k + 1)"
    using binade_bounds(1) [OF x] assms(2) by linarith
  then have 1: "binade x < k + 1"
    by (metis not_less power_int_increasing one_le_numeral)
  have "(2::rat) powi k < 2 powi (binade x + 1)"
    using binade_bounds(2) [OF x] assms(1) by linarith
  then have 2: "k < binade x + 1"
    by (metis not_less power_int_increasing one_le_numeral)
  from 1 2 show ?thesis by linarith
qed

text \<open>The scaled significand of a positive number lies between \<open>2 ^ 52\<close> and \<open>2 ^ 53\<close>.\<close>

lemma significand_bounds:
  assumes "0 < x"
  shows "2 ^ 52 \<le> x / 2 powi (binade x - 52)" and "x / 2 powi (binade x - 52) < 2 ^ 53"
proof -
  have p: "(0::rat) < 2 powi (binade x - 52)" by (simp add: zero_less_power_int)
  have e1: "(2::rat) powi binade x = 2 ^ 52 * 2 powi (binade x - 52)"
    by (simp add: power_int_diff)
  have e2: "(2::rat) powi (binade x + 1) = 2 ^ 53 * 2 powi (binade x - 52)"
    by (simp add: power_int_diff power_int_add)
  show "2 ^ 52 \<le> x / 2 powi (binade x - 52)"
    using binade_bounds(1) [OF assms] p unfolding e1 by (simp add: pos_le_divide_eq)
  show "x / 2 powi (binade x - 52) < 2 ^ 53"
    using binade_bounds(2) [OF assms] p unfolding e2 by (simp add: pos_divide_less_eq)
qed

lemma float64_round_zero [simp]: "float64_round 0 = 0"
  by (simp add: float64_round_def)

lemma float64_round_minus: "float64_round (- x) = - float64_round x"
  by (simp add: float64_round_def Let_def sgn_minus)

lemma float64_round_pos_eq:
  "0 < x \<Longrightarrow> float64_round x =
     of_int (round_half_even (x / 2 powi (binade x - 52))) * 2 powi (binade x - 52)"
  by (simp add: float64_round_def Let_def)

lemma float64_round_pos:
  assumes "0 < x" shows "0 < float64_round x"
proof -
  have "of_int (2 ^ 52) \<le> x / 2 powi (binade x - 52)"
    using significand_bounds(1) [OF assms] by simp
  then have "2 ^ 52 \<le> round_half_even (x / 2 powi (binade x - 52))"
    by (rule round_half_even_ge)
  moreover have "(0::int) < 2 ^ 52" by simp
  ultimately have "0 < round_half_even (x / 2 powi (binade x - 52))" by linarith
  then have "(0::rat) < of_int (round_half_even (x / 2 powi (binade x - 52)))" by simp
  moreover have "(0::rat) < 2 powi (binade x - 52)" by (simp add: zero_less_power_int)
  ultimately show ?thesis
    unfolding float64_round_pos_eq [OF assms] by (rule mult_pos_pos)
qed

lemma float64_round_neg: "x < 0 \<Longrightarrow> float64_round x < 0"
  using float64_round_pos [of "- x"] by (simp add: float64_round_minus)

lemma float64_round_nonneg: "0 \<le> x \<Longrightarrow> 0 \<le> float64_round x"
  using float64_round_pos [of x] by (cases "x = 0") (simp_all add: less_imp_le)

lemma float64_round_nonpos: "x \<le> 0 \<Longrightarrow> float64_round x \<le> 0"
  using float64_round_neg [of x] by (cases "x = 0") (simp_all add: less_imp_le)

text \<open>Rounding changes a number by at most the \<open>2 ^ 53\<close>-th part of its magnitude.\<close>

lemma float64_round_error_pos:
  assumes "0 < x" shows "\<bar>float64_round x - x\<bar> \<le> x / 2 ^ 53"
proof -
  define p :: rat where "p = 2 powi (binade x - 52)"
  define m where "m = x / p"
  have p: "0 < p" by (simp add: p_def zero_less_power_int)
  have x: "x = m * p" using p by (simp add: m_def)
  have m: "2 ^ 52 \<le> m" using significand_bounds(1) [OF assms] by (simp add: m_def p_def)
  have "float64_round x - x = (of_int (round_half_even m) - m) * p"
    unfolding float64_round_pos_eq [OF assms] by (simp add: m_def p_def algebra_simps)
  then have "\<bar>float64_round x - x\<bar> = \<bar>of_int (round_half_even m) - m\<bar> * p"
    using p by (simp add: abs_mult)
  also have "\<dots> \<le> 1/2 * p"
    using round_half_even_error [of m] p by (intro mult_right_mono) simp_all
  also have "\<dots> \<le> (m / 2 ^ 53) * p"
  proof -
    have "1/2 \<le> m / 2 ^ 53" using m by simp
    then show ?thesis using p by (intro mult_right_mono) simp_all
  qed
  also have "\<dots> = x / 2 ^ 53" by (simp add: x)
  finally show ?thesis .
qed

lemma float64_round_error: "\<bar>float64_round x - x\<bar> \<le> \<bar>x\<bar> / 2 ^ 53"
proof -
  consider "x = 0" | "0 < x" | "x < 0" by linarith
  then show ?thesis
  proof cases
    case 1 then show ?thesis by simp
  next
    case 2 then show ?thesis using float64_round_error_pos [of x] by simp
  next
    case 3
    then have "\<bar>float64_round (- x) - (- x)\<bar> \<le> (- x) / 2 ^ 53"
      by (intro float64_round_error_pos) simp
    then show ?thesis using 3 by (simp add: float64_round_minus abs_minus_commute)
  qed
qed

text \<open>
  An integer of magnitude at most \<open>2 ^ 53\<close> is converted exactly, and the conversion of
  any integer is an integer.
\<close>

lemma float64_round_exactI:
  assumes "0 < x" and "x / 2 powi (binade x - 52) = of_int j"
  shows "float64_round x = x"
proof -
  have p: "(2::rat) powi (binade x - 52) \<noteq> 0" by simp
  have "float64_round x = (x / 2 powi (binade x - 52)) * 2 powi (binade x - 52)"
    unfolding float64_round_pos_eq [OF assms(1)] assms(2) by simp
  then show ?thesis using p by simp
qed

lemma binade_of_int:
  assumes "0 < i" shows "binade (of_int i) = bitlen i - 1"
  using assms by (simp add: binade_def)

lemma float64_round_of_int_small:
  assumes "0 < i" and "i < 2 ^ 53"
  shows "float64_round (of_int i) = of_int i"
proof -
  define k where "k = bitlen i - 1"
  have "bitlen i \<le> 53" using assms by (simp add: bitlen_le_iff_power)
  then have k: "k \<le> 52" by (simp add: k_def)
  have "(of_int i :: rat) / 2 powi (k - 52) = of_int i * 2 powi (52 - k)"
    by (simp add: power_int_diff)
  also have "\<dots> = of_int i * 2 ^ nat (52 - k)" using k by (simp add: power_int_nonneg_exp)
  also have "\<dots> = of_int (i * 2 ^ nat (52 - k))" by simp
  finally have h: "(of_int i :: rat) / 2 powi (binade (of_int i) - 52) = of_int (i * 2 ^ nat (52 - k))"
    using assms(1) by (simp only: binade_of_int k_def)
  have "(0::rat) < of_int i" using assms(1) by simp
  then show ?thesis using h by (rule float64_round_exactI)
qed

lemma float64_round_2p53: "float64_round (2 ^ 53) = 2 ^ 53"
  by code_simp

lemma float64_round_of_int_exact:
  assumes "\<bar>i\<bar> \<le> 2 ^ 53"
  shows "float64_round (of_int i) = of_int i"
proof -
  have pos: "float64_round (of_int j) = of_int j" if "0 < j" "j \<le> 2 ^ 53" for j :: int
  proof (cases "j = 2 ^ 53")
    case True
    then show ?thesis using float64_round_2p53 by simp
  next
    case False
    with that have "j < 2 ^ 53" by simp
    with that(1) show ?thesis by (rule float64_round_of_int_small)
  qed
  consider "i = 0" | "0 < i" | "i < 0" by linarith
  then show ?thesis
  proof cases
    case 1 then show ?thesis by simp
  next
    case 2 then show ?thesis using pos [of i] assms by simp
  next
    case 3
    then have "float64_round (of_int (- i)) = of_int (- i)" using assms by (intro pos) simp_all
    then show ?thesis by (simp add: float64_round_minus)
  qed
qed

lemma float64_round_of_int_Ints: "float64_round (of_int i) \<in> \<int>"
proof -
  have pos: "float64_round (of_int j) \<in> \<int>" if "0 < j" for j :: int
  proof (cases "j < 2 ^ 53")
    case True
    with that show ?thesis by (simp add: float64_round_of_int_small)
  next
    case False
    then have "53 < bitlen j + 0" using that
      by (metis add.right_neutral bitlen_le_iff_power not_less nat_numeral zero_le_numeral)
    then have e: "0 \<le> binade (of_int j :: rat) - 52" using that by (simp add: binade_of_int)
    have "(0::rat) < of_int j" using that by simp
    then have "float64_round (of_int j) =
        of_int (round_half_even (of_int j / 2 powi (binade (of_int j) - 52)))
          * 2 ^ nat (binade (of_int j :: rat) - 52)"
      using e by (simp add: float64_round_pos_eq power_int_nonneg_exp)
    also have "\<dots> \<in> \<int>" by (intro Ints_mult Ints_of_int Ints_power) simp
    finally show ?thesis .
  qed
  consider "i = 0" | "0 < i" | "i < 0" by linarith
  then show ?thesis
  proof cases
    case 1 then show ?thesis by simp
  next
    case 2 then show ?thesis by (rule pos)
  next
    case 3
    then have "float64_round (of_int (- i)) \<in> \<int>" by (intro pos) simp
    then show ?thesis by (simp add: float64_round_minus)
  qed
qed

section \<open>The elapsed-time helpers\<close>

lemma int_quo_nonneg: "0 \<le> a \<Longrightarrow> 0 < b \<Longrightarrow> int_quo a b = a div b"
  by (cases "a = 0") (simp_all add: int_quo_def)

lemma int_quo_neg: "a < 0 \<Longrightarrow> 0 < b \<Longrightarrow> int_quo a b = - ((- a) div b)"
  by (simp add: int_quo_def)

lemma int_quo_minus: "int_quo (- a) b = - int_quo a b"
  by (simp add: int_quo_def sgn_minus)

lemma int_rem_minus: "int_rem (- a) b = - int_rem a b"
  by (simp add: int_rem_def int_quo_minus)

lemma int_rem_nonneg: "0 \<le> a \<Longrightarrow> 0 < b \<Longrightarrow> int_rem a b = a mod b"
  by (simp add: int_rem_def int_quo_nonneg minus_mult_div_eq_mod)

lemma Since_in_range:
  "minDuration \<le> now - start \<Longrightarrow> now - start \<le> maxDuration \<Longrightarrow> Since now start = now - start"
  by (simp add: Since_def Sub_def)

lemma Since_neg_iff: "Since now start < 0 \<longleftrightarrow> now < start"
  by (simp add: Since_def Sub_def minDuration_def maxDuration_def)

lemma Since_le_iff: "Since now start \<le> - 1000 \<longleftrightarrow> 1000 \<le> start - now"
  by (auto simp add: Since_def Sub_def minDuration_def maxDuration_def)

lemma Second_eq: "Second = 1000000000"
  by (simp add: Second_def Millisecond_def Microsecond_def Nanosecond_def)

lemma SinceInMicroseconds_eq:
  "SinceInMicroseconds now start = float64_round (of_int (int_quo (Since now start) 1000))"
  by (simp add: SinceInMicroseconds_def float64_of_int64_def Nanoseconds_def Microsecond_def
      Nanosecond_def)

lemma abs_int_quo: "0 < b \<Longrightarrow> \<bar>int_quo a b\<bar> = \<bar>a\<bar> div b"
  by (cases "0 \<le> a") (simp_all add: int_quo_nonneg int_quo_neg pos_imp_zdiv_nonneg_iff)

lemma quo_1000_bound:
  assumes "\<bar>d\<bar> \<le> 2 ^ 53 * 1000" shows "\<bar>int_quo d 1000\<bar> \<le> 2 ^ 53"
proof -
  have "\<bar>int_quo d 1000\<bar> = \<bar>d\<bar> div 1000" by (simp add: abs_int_quo)
  also have "\<dots> \<le> (2 ^ 53 * 1000) div 1000" using assms by (rule zdiv_mono1) simp
  finally show ?thesis by simp
qed

lemma div_1000_bounds:
  "(of_int (n div 1000) :: rat) \<le> of_int n / 1000"
  "(of_int n :: rat) / 1000 < of_int (n div 1000) + 1"
proof -
  have "n div 1000 * 1000 \<le> n" "n < (n div 1000 + 1) * 1000"
    by (simp_all add: algebra_simps)
  then have "(of_int (n div 1000 * 1000) :: rat) \<le> of_int n"
    "(of_int n :: rat) < of_int ((n div 1000 + 1) * 1000)"
    by (simp_all only: of_int_le_iff of_int_less_iff)
  then show "(of_int (n div 1000) :: rat) \<le> of_int n / 1000"
    "(of_int n :: rat) / 1000 < of_int (n div 1000) + 1"
    by (simp_all add: pos_le_divide_eq pos_divide_less_eq)
qed

lemma SinceInMicroseconds_range:
  assumes "\<bar>now - start\<bar> \<le> 2 ^ 53 * 1000"
  shows "SinceInMicroseconds now start = of_int (int_quo (now - start) 1000)"
proof -
  have r: "minDuration \<le> now - start" "now - start \<le> maxDuration"
    using assms by (simp_all add: minDuration_def maxDuration_def)
  show ?thesis
    unfolding SinceInMicroseconds_eq Since_in_range [OF r]
    using quo_1000_bound [OF assms] by (rule float64_round_of_int_exact)
qed

lemma Seconds_eq:
  "Seconds d =
     float64_round (float64_round (of_int (int_quo d 1000000000))
       + float64_round (float64_round (of_int (int_rem d 1000000000)) / 1000000000))"
  by (simp add: Seconds_def Let_def float64_add_def float64_quo_def float64_of_int64_def Second_eq)

lemma Seconds_minus: "Seconds (- d) = - Seconds d"
proof -
  have "Seconds (- d) =
     float64_round (- (float64_round (of_int (int_quo d 1000000000))
       + float64_round (float64_round (of_int (int_rem d 1000000000)) / 1000000000)))"
    unfolding Seconds_eq by (simp add: int_quo_minus int_rem_minus float64_round_minus)
  then show ?thesis unfolding Seconds_eq by (simp only: float64_round_minus)
qed

lemma Seconds_nonneg_eq:
  assumes "0 \<le> d" and "d \<le> 2 ^ 63"
  shows "Seconds d = float64_round (of_int (d div 1000000000)
           + float64_round (of_int (d mod 1000000000) / 1000000000))"
proof -
  have "d div 1000000000 \<le> 2 ^ 63 div 1000000000" using assms(2) by (rule zdiv_mono1) simp
  then have "\<bar>d div 1000000000\<bar> \<le> 2 ^ 53" using assms(1) by (simp add: pos_imp_zdiv_nonneg_iff)
  then have 1: "float64_round (of_int (d div 1000000000)) = of_int (d div 1000000000)"
    by (rule float64_round_of_int_exact)
  have "0 \<le> d mod 1000000000" "d mod 1000000000 < 1000000000" by simp_all
  then have "\<bar>d mod 1000000000\<bar> \<le> 2 ^ 53" by simp
  then have 2: "float64_round (of_int (d mod 1000000000)) = of_int (d mod 1000000000)"
    by (rule float64_round_of_int_exact)
  show ?thesis
    unfolding Seconds_eq using assms(1) by (simp add: int_quo_nonneg int_rem_nonneg 1 2)
qed

lemma Seconds_error_nonneg:
  assumes "0 \<le> d" and "d \<le> 2 ^ 63"
  shows "\<bar>Seconds d - of_int d / 1000000000\<bar> \<le> (of_int d / 1000000000) / 2 ^ 51"
proof -
  define sec :: rat where "sec = of_int (d div 1000000000)"
  define x :: rat where "x = of_int (d mod 1000000000) / 1000000000"
  define a where "a = float64_round x"
  define s where "s = sec + a"
  have sec: "0 \<le> sec" using assms(1) by (simp add: sec_def pos_imp_zdiv_nonneg_iff)
  have x: "0 \<le> x" by (simp add: x_def)
  have a: "0 \<le> a" unfolding a_def using x by (rule float64_round_nonneg)
  have dx: "of_int d / 1000000000 = sec + x"
  proof -
    have "(of_int d :: rat) = of_int (d div 1000000000 * 1000000000 + d mod 1000000000)"
      by (simp only: div_mult_mod_eq)
    also have "\<dots> = of_int (d div 1000000000) * 1000000000 + of_int (d mod 1000000000)"
      by (simp only: of_int_add of_int_mult of_int_numeral)
    finally have h: "(of_int d :: rat) / 1000000000 =
        (of_int (d div 1000000000) * 1000000000 + of_int (d mod 1000000000)) / 1000000000"
      by (simp only:)
    show ?thesis unfolding h sec_def x_def by (simp add: add_divide_distrib)
  qed
  have ea: "\<bar>a - x\<bar> \<le> x / 2 ^ 53"
    using float64_round_error [of x] x by (simp add: a_def)
  then have "a \<le> x + x / 2 ^ 53" by linarith
  then have sb: "\<bar>s\<bar> \<le> sec + x + x / 2 ^ 53" using sec a by (simp add: s_def)
  have es: "\<bar>float64_round s - s\<bar> \<le> \<bar>s\<bar> / 2 ^ 53" by (rule float64_round_error)
  have "\<bar>s\<bar> / 2 ^ 53 \<le> (sec + x + x / 2 ^ 53) / 2 ^ 53"
    using sb by (simp add: divide_right_mono)
  with es have es': "\<bar>float64_round s - s\<bar> \<le> (sec + x + x / 2 ^ 53) / 2 ^ 53" by linarith
  have "x / 2 ^ 53 \<le> x" using x by (simp add: field_simps)
  then have "(sec + x + x / 2 ^ 53) / 2 ^ 53 + x / 2 ^ 53 \<le> (4 * (sec + x)) / 2 ^ 53"
    using sec x by (simp add: field_simps)
  moreover have "\<bar>float64_round s - (sec + x)\<bar> \<le> \<bar>float64_round s - s\<bar> + \<bar>a - x\<bar>"
    by (simp add: s_def)
  ultimately have "\<bar>float64_round s - (sec + x)\<bar> \<le> (4 * (sec + x)) / 2 ^ 53"
    using es' ea by linarith
  moreover have "Seconds d = float64_round s"
    unfolding Seconds_nonneg_eq [OF assms] by (simp add: s_def a_def sec_def x_def)
  ultimately show ?thesis unfolding dx by simp
qed

lemma Seconds_error:
  assumes "minDuration \<le> d" and "d \<le> maxDuration"
  shows "\<bar>Seconds d - of_int d / 1000000000\<bar> \<le> \<bar>of_int d / 1000000000\<bar> / 2 ^ 51"
proof (cases "0 \<le> d")
  case True
  then show ?thesis
    using Seconds_error_nonneg [of d] assms(2) by (simp add: maxDuration_def)
next
  case False
  then have "\<bar>Seconds (- d) - of_int (- d) / 1000000000\<bar> \<le> (of_int (- d) / 1000000000) / 2 ^ 51"
    using assms(1) by (intro Seconds_error_nonneg) (simp_all add: minDuration_def)
  moreover have "\<bar>Seconds (- d) - of_int (- d) / 1000000000\<bar> = \<bar>Seconds d - of_int d / 1000000000\<bar>"
    unfolding Seconds_minus by (simp add: abs_minus_commute)
  moreover have "(of_int (- d) :: rat) / 1000000000 = \<bar>of_int d / 1000000000\<bar>"
    using False by simp
  ultimately show ?thesis by simp
qed

lemma Seconds_neg:
  assumes "d < 0" shows "Seconds d < 0"
proof -
  define q where "q = int_quo d 1000000000"
  define r where "r = int_rem d 1000000000"
  have q: "q = - ((- d) div 1000000000)" using assms by (simp add: q_def int_quo_neg)
  have r: "r = - ((- d) mod 1000000000)"
    using int_rem_nonneg [of "- d" 1000000000] assms by (simp add: r_def int_rem_minus)
  have q0: "q \<le> 0" using assms by (simp add: q pos_imp_zdiv_nonneg_iff)
  have r0: "r \<le> 0" by (simp add: r)
  have fq: "float64_round (of_int q) \<le> 0" using q0 by (intro float64_round_nonpos) simp
  have "float64_round (of_int r) \<le> 0" using r0 by (intro float64_round_nonpos) simp
  then have fr: "float64_round (float64_round (of_int r) / 1000000000) \<le> 0"
    by (intro float64_round_nonpos) (simp add: divide_le_0_iff)
  have "float64_round (of_int q) + float64_round (float64_round (of_int r) / 1000000000) < 0"
  proof (cases "q < 0")
    case True
    then have "float64_round (of_int q) < 0" by (intro float64_round_neg) simp
    with fr show ?thesis by linarith
  next
    case False
    with q0 have "q = 0" by simp
    then have "(- d) div 1000000000 = 0" by (simp add: q)
    then have "(- d) mod 1000000000 = - d" by (metis add_0 mult_zero_left div_mult_mod_eq)
    then have "r < 0" using assms by (simp add: r)
    then have "float64_round (of_int r) < 0" by (intro float64_round_neg) simp
    then have "float64_round (float64_round (of_int r) / 1000000000) < 0"
      by (intro float64_round_neg) (simp add: divide_less_0_iff)
    with fq show ?thesis by linarith
  qed
  then show ?thesis unfolding Seconds_eq q_def r_def by (rule float64_round_neg)
qed

text \<open>
  Claim C2, amended. For every start whose distance from \<open>now\<close> is at most \<open>2 ^ 53\<close>
  microseconds (about 285 years), \<^verbatim>\<open>SinceInMicroseconds\<close> returns the nanosecond count
  \<open>now - start\<close> divided by 1000 with the quotient truncated toward zero: the magnitude
  of the result is never more than that of the exact quotient and less than one below it.
  For a start that is not in the future the result is the whole number of elapsed
  microseconds and never exceeds the exact quotient. For a start exactly 2.5 seconds in the
  past the result is 2500000.
\<close>

theorem SinceInMicroseconds_truncates:
  assumes "\<bar>now - start\<bar> \<le> 2 ^ 53 * 1000"
  shows "SinceInMicroseconds now start = of_int (int_quo (now - start) 1000)
       \<and> \<bar>SinceInMicroseconds now start\<bar> \<le> \<bar>of_int (now - start) / 1000\<bar>
       \<and> \<bar>of_int (now - start) / 1000\<bar> < \<bar>SinceInMicroseconds now start\<bar> + 1
       \<and> (start \<le> now \<longrightarrow>
            SinceInMicroseconds now start = of_int ((now - start) div 1000)
          \<and> SinceInMicroseconds now start \<le> of_int (now - start) / 1000)
       \<and> SinceInMicroseconds (start + 2500000000) start = 2500000"
proof -
  define d where "d = now - start"
  have 1: "SinceInMicroseconds now start = of_int (int_quo d 1000)"
    unfolding d_def using assms by (rule SinceInMicroseconds_range)
  have a: "\<bar>SinceInMicroseconds now start\<bar> = of_int (\<bar>d\<bar> div 1000)"
    unfolding 1 by (simp add: abs_int_quo flip: of_int_abs)
  have b: "\<bar>(of_int d :: rat) / 1000\<bar> = of_int \<bar>d\<bar> / 1000" by simp
  have 2: "\<bar>SinceInMicroseconds now start\<bar> \<le> \<bar>of_int d / 1000\<bar>"
    unfolding a b by (rule div_1000_bounds)
  have 3: "\<bar>of_int d / 1000\<bar> < \<bar>SinceInMicroseconds now start\<bar> + 1"
    unfolding a b by (rule div_1000_bounds)
  have 4: "SinceInMicroseconds now start = of_int (d div 1000)
         \<and> SinceInMicroseconds now start \<le> of_int d / 1000" if "start \<le> now"
  proof -
    have "0 \<le> d" using that by (simp add: d_def)
    then have "SinceInMicroseconds now start = of_int (d div 1000)"
      using 1 by (simp add: int_quo_nonneg)
    then show ?thesis using div_1000_bounds(1) [of d] by simp
  qed
  have 5: "SinceInMicroseconds (start + 2500000000) start = 2500000"
  proof -
    have "Since (start + 2500000000) start = 2500000000"
      by (simp add: Since_def Sub_def minDuration_def maxDuration_def)
    moreover have "float64_round (of_int 2500000) = of_int 2500000"
      by (rule float64_round_of_int_exact) simp
    ultimately show ?thesis by (simp add: SinceInMicroseconds_eq int_quo_def)
  qed
  from 1 2 3 4 5 show ?thesis unfolding d_def by blast
qed

text \<open>A start 2.500000999 seconds in the past: the 999 nanoseconds are discarded.\<close>

theorem SinceInMicroseconds_truncates_witness:
  "\<bar>(2500000999::int) - 0\<bar> \<le> 2 ^ 53 * 1000
   \<and> SinceInMicroseconds 2500000999 0 = 2500000
   \<and> SinceInMicroseconds 2500000999 0 \<le> of_int (2500000999 - 0) / 1000
   \<and> \<bar>of_int (2500000999 - 0) / 1000\<bar> < \<bar>SinceInMicroseconds 2500000999 0\<bar> + 1"
  using SinceInMicroseconds_truncates [of 2500000999 0] by simp

text \<open>
  The claim as stated, for every start, fails. A start \<open>10 ^ 19\<close> nanoseconds (about 317
  years) in the past exceeds the range of a \<^verbatim>\<open>Duration\<close>: \<^verbatim>\<open>time.Since\<close> returns the largest
  duration and the helper returns 9223372036854776, while the quotient of the elapsed
  nanoseconds by 1000 is \<open>10 ^ 16\<close>. A start 9007199254740995000 nanoseconds (about 285.4
  years) in the past is in range, but its quotient \<open>2 ^ 53 + 3\<close> is not a \<^verbatim>\<open>float64\<close>: the
  conversion rounds it up to \<open>2 ^ 53 + 4\<close>.
\<close>

theorem SinceInMicroseconds_not_quotient:
  "SinceInMicroseconds 0 (- (10 ^ 19)) = 9223372036854776
   \<and> SinceInMicroseconds 0 (- (10 ^ 19)) \<noteq> of_int (int_quo (0 - (- (10 ^ 19))) 1000)
   \<and> SinceInMicroseconds 9007199254740995000 0 = 9007199254740996
   \<and> of_int (int_quo (9007199254740995000 - 0) 1000) < SinceInMicroseconds 9007199254740995000 0"
proof -
  have 1: "SinceInMicroseconds 0 (- (10 ^ 19)) = 9223372036854776" by code_simp
  have 2: "SinceInMicroseconds 9007199254740995000 0 = 9007199254740996" by code_simp
  have 3: "int_quo (0 - (- (10 ^ 19))) 1000 = 10000000000000000" by (simp add: int_quo_def)
  have 4: "int_quo (9007199254740995000 - 0) 1000 = 9007199254740995" by (simp add: int_quo_def)
  show ?thesis unfolding 1 2 3 4 by simp
qed

text \<open>
  Claim C3, amended. For every start whose distance from \<open>now\<close> fits a \<^verbatim>\<open>Duration\<close>
  (about 292 years either way), \<^verbatim>\<open>SinceInSeconds\<close> returns \<^verbatim>\<open>Seconds\<close> of the difference
  between the clock reading of the call and the start, and the result differs from the exact
  number of seconds by at most the \<open>2 ^ 51\<close>-th part of it. The result follows the clock:
  for a start exactly 2.5 seconds before the reading it is 2.5, and for the same start and
  a reading half a second later it is 3.
\<close>

theorem SinceInSeconds_precision:
  assumes "minDuration \<le> now - start" and "now - start \<le> maxDuration"
  shows "SinceInSeconds now start = Seconds (now - start)
       \<and> \<bar>SinceInSeconds now start - of_int (now - start) / 1000000000\<bar>
            \<le> \<bar>of_int (now - start) / 1000000000\<bar> / 2 ^ 51
       \<and> SinceInSeconds (start + 2500000000) start = 5 / 2
       \<and> SinceInSeconds (start + 3000000000) start = 3"
proof -
  have 1: "SinceInSeconds now start = Seconds (now - start)"
    by (simp add: SinceInSeconds_def Since_in_range [OF assms])
  have 2: "\<bar>Seconds (now - start) - of_int (now - start) / 1000000000\<bar>
            \<le> \<bar>of_int (now - start) / 1000000000\<bar> / 2 ^ 51"
    using assms by (rule Seconds_error)
  have "Since (start + 2500000000) start = 2500000000"
    by (simp add: Since_def Sub_def minDuration_def maxDuration_def)
  moreover have "Seconds 2500000000 = 5 / 2" by code_simp
  ultimately have 3: "SinceInSeconds (start + 2500000000) start = 5 / 2"
    by (simp add: SinceInSeconds_def)
  have "Since (start + 3000000000) start = 3000000000"
    by (simp add: Since_def Sub_def minDuration_def maxDuration_def)
  moreover have "Seconds 3000000000 = 3" by code_simp
  ultimately have 4: "SinceInSeconds (start + 3000000000) start = 3"
    by (simp add: SinceInSeconds_def)
  from 1 2 3 4 show ?thesis by simp
qed

text \<open>A start 2.5 seconds before a clock reading of 1700000002.5 seconds.\<close>

theorem SinceInSeconds_precision_witness:
  "minDuration \<le> 1700000002500000000 - 1700000000000000000
   \<and> 1700000002500000000 - 1700000000000000000 \<le> maxDuration
   \<and> SinceInSeconds 1700000002500000000 1700000000000000000 = 5 / 2"
  using SinceInSeconds_precision [of 1700000002500000000 1700000000000000000]
  by (simp add: minDuration_def maxDuration_def)

text \<open>
  The claim as stated, for every start, fails: for a start \<open>10 ^ 19\<close> nanoseconds in the
  past, ten thousand million seconds have elapsed, and the helper returns less than
  9223372037, the largest duration in seconds.
\<close>

theorem SinceInSeconds_saturates:
  "SinceInSeconds 0 (- (10 ^ 19)) < 9223372037
   \<and> of_int (0 - (- (10 ^ 19))) / 1000000000 = (10000000000 :: rat)
   \<and> 776627963 < of_int (0 - (- (10 ^ 19))) / 1000000000 - SinceInSeconds 0 (- (10 ^ 19))"
proof -
  have "SinceInSeconds 0 (- (10 ^ 19)) < 9223372037" by code_simp
  then show ?thesis by simp
qed

text \<open>
  Claim C4, amended. For every start in the future of \<open>now\<close>, \<^verbatim>\<open>SinceInSeconds\<close> returns a
  negative number, and \<^verbatim>\<open>SinceInMicroseconds\<close> returns a number that is never positive and
  is negative exactly when the start is at least one microsecond ahead. Neither helper
  reports an error, and neither clamps: while the distance fits a \<^verbatim>\<open>Duration\<close>, each result
  is the negation of the result for the two instants exchanged. For a start one second in
  the future the results are -1 and -1000000.
\<close>

theorem future_start_negative:
  assumes "now < start"
  shows "SinceInSeconds now start < 0
       \<and> SinceInMicroseconds now start \<le> 0
       \<and> (SinceInMicroseconds now start < 0) = (1000 \<le> start - now)
       \<and> (start - now \<le> maxDuration \<longrightarrow>
            SinceInSeconds now start = - SinceInSeconds start now
          \<and> SinceInMicroseconds now start = - SinceInMicroseconds start now)
       \<and> SinceInSeconds now (now + 1000000000) = - 1
       \<and> SinceInMicroseconds now (now + 1000000000) = - 1000000"
proof -
  define d where "d = Since now start"
  have d: "d < 0" using assms by (simp add: d_def Since_neg_iff)
  have 1: "SinceInSeconds now start < 0"
    unfolding SinceInSeconds_def using d [unfolded d_def] by (rule Seconds_neg)
  have q: "int_quo d 1000 = - ((- d) div 1000)" using d by (simp add: int_quo_neg)
  have q0: "int_quo d 1000 \<le> 0" using d by (simp add: q pos_imp_zdiv_nonneg_iff)
  have 2: "SinceInMicroseconds now start \<le> 0"
    unfolding SinceInMicroseconds_eq using q0 [unfolded d_def]
    by (intro float64_round_nonpos) simp
  have qn: "int_quo d 1000 < 0 \<longleftrightarrow> d \<le> - 1000"
    using d by (auto simp add: q pos_imp_zdiv_pos_iff)
  have qn': "int_quo d 1000 < 0 \<longleftrightarrow> 1000 \<le> start - now"
    unfolding qn by (simp add: d_def Since_le_iff)
  have "(SinceInMicroseconds now start < 0) = (int_quo d 1000 < 0)"
  proof
    assume "SinceInMicroseconds now start < 0"
    then have "int_quo d 1000 \<noteq> 0" by (auto simp: SinceInMicroseconds_eq d_def)
    with q0 show "int_quo d 1000 < 0" by simp
  next
    assume "int_quo d 1000 < 0"
    then show "SinceInMicroseconds now start < 0"
      unfolding SinceInMicroseconds_eq d_def by (intro float64_round_neg) simp
  qed
  then have 3: "(SinceInMicroseconds now start < 0) = (1000 \<le> start - now)"
    by (simp only: qn')
  have 4: "SinceInSeconds now start = - SinceInSeconds start now
          \<and> SinceInMicroseconds now start = - SinceInMicroseconds start now"
    if "start - now \<le> maxDuration"
  proof -
    have a: "Since now start = - (start - now)"
      using assms that by (simp add: Since_def Sub_def minDuration_def maxDuration_def)
    have b: "Since start now = start - now"
      using assms that by (simp add: Since_def Sub_def minDuration_def maxDuration_def)
    show ?thesis
      unfolding SinceInSeconds_def SinceInMicroseconds_eq a b
      by (simp only: Seconds_minus int_quo_minus of_int_minus float64_round_minus)
  qed
  have s: "Since now (now + 1000000000) = - 1000000000"
    by (simp add: Since_def Sub_def minDuration_def maxDuration_def)
  have "Seconds (- 1000000000) = - 1" by code_simp
  then have 5: "SinceInSeconds now (now + 1000000000) = - 1"
    by (simp add: SinceInSeconds_def s)
  have "float64_round (of_int (- 1000000)) = of_int (- 1000000)"
    by (rule float64_round_of_int_exact) simp
  then have 6: "SinceInMicroseconds now (now + 1000000000) = - 1000000"
    by (simp add: SinceInMicroseconds_eq s int_quo_def)
  from 1 2 3 4 5 6 show ?thesis by blast
qed

text \<open>A start one second ahead, and a start 500 nanoseconds ahead.\<close>

theorem future_start_negative_witness:
  "(0::int) < 1000000000 \<and> SinceInSeconds 0 1000000000 = - 1
   \<and> SinceInMicroseconds 0 1000000000 = - 1000000
   \<and> SinceInSeconds 0 1000000000 = - SinceInSeconds 1000000000 0
   \<and> SinceInSeconds 0 500 < 0"
  using future_start_negative [of 0 1000000000] future_start_negative [of 0 500]
  by (simp add: maxDuration_def)

text \<open>
  The claim as stated, that both helpers return a negative number for every start in the
  future, fails for \<^verbatim>\<open>SinceInMicroseconds\<close>: for a start 500 nanoseconds ahead the quotient
  is truncated to zero.
\<close>

theorem SinceInMicroseconds_future_not_negative:
  "(0::int) < 500 \<and> \<not> SinceInMicroseconds 0 500 < 0 \<and> SinceInMicroseconds 0 500 = 0"
proof -
  have "SinceInMicroseconds 0 500 = 0" by code_simp
  then show ?thesis by simp
qed

text \<open>
  Claim C10. For every start that is in the future of \<open>now\<close> by less than one microsecond,
  \<^verbatim>\<open>SinceInMicroseconds\<close> returns exactly 0. For a start further ahead (up to \<open>2 ^ 53\<close>
  microseconds) it returns minus the whole number of microseconds to go, which is the
  quotient truncated toward zero. In every case the result is the \<^verbatim>\<open>float64\<close> conversion of
  the integer quotient, and it is an integer.
\<close>

theorem SinceInMicroseconds_toward_zero:
  "(now < start \<and> start - now < 1000 \<longrightarrow> SinceInMicroseconds now start = 0)
   \<and> (now < start \<and> start - now \<le> 2 ^ 53 * 1000 \<longrightarrow>
        SinceInMicroseconds now start = - of_int ((start - now) div 1000))
   \<and> SinceInMicroseconds now start =
        float64_of_int64 (int_quo (Nanoseconds (Since now start)) (Nanoseconds Microsecond))
   \<and> SinceInMicroseconds now start \<in> \<int>"
proof -
  have 2: "SinceInMicroseconds now start = - of_int ((start - now) div 1000)"
    if "now < start" "start - now \<le> 2 ^ 53 * 1000"
  proof -
    have "\<bar>now - start\<bar> \<le> 2 ^ 53 * 1000" using that by simp
    then have "SinceInMicroseconds now start = of_int (int_quo (now - start) 1000)"
      using SinceInMicroseconds_range by simp
    then show ?thesis using that(1) by (simp add: int_quo_neg)
  qed
  have 1: "SinceInMicroseconds now start = 0" if "now < start" "start - now < 1000"
    using 2 [OF that(1)] that by simp
  have 3: "SinceInMicroseconds now start \<in> \<int>"
    unfolding SinceInMicroseconds_eq by (rule float64_round_of_int_Ints)
  from 1 2 3 show ?thesis by (simp add: SinceInMicroseconds_def)
qed

text \<open>A start 999 nanoseconds ahead gives 0, and a start 1999 nanoseconds ahead gives -1.\<close>

theorem SinceInMicroseconds_toward_zero_witness:
  "(0::int) < 999 \<and> (999::int) - 0 < 1000 \<and> SinceInMicroseconds 0 999 = 0
   \<and> SinceInMicroseconds 0 1999 = - 1"
  using SinceInMicroseconds_toward_zero [of 0 999] SinceInMicroseconds_toward_zero [of 0 1999]
  by simp

end
